theory Spec2Isabelle
  imports Main "HOL-Library.Monad_Syntax" "HOL-Library.AList"
begin

section \<open>Python values and list indexing\<close>

text \<open>
  The exceptions the modelled code can raise.
\<close>

datatype error = IndexError | TypeError | ValueError | AttributeError | RuntimeError

text \<open>
  The few dynamically typed values the source compares or unpacks across types:
  \<open>None\<close>, integers, strings and tuples. Equality of two such values is Python's
  \<open>==\<close> on them: values of different shape are never equal.
\<close>

datatype pyval = PyNone | PyInt int | PyStr string | PyTuple "pyval list"

text \<open>
  \<open>xs[i]\<close> on a Python list: an index in \<open>[0, len)\<close> is taken as it is, an index in
  \<open>[-len, 0)\<close> counts from the end, anything else raises IndexError (here \<open>None\<close>).
\<close>

definition py_index :: "nat \<Rightarrow> int \<Rightarrow> nat option" where
  "py_index n i =
     (if 0 \<le> i \<and> i < int n then Some (nat i)
      else if - int n \<le> i \<and> i < 0 then Some (nat (i + int n))
      else None)"

definition py_get :: "'a list \<Rightarrow> int \<Rightarrow> 'a option" where
  "py_get xs i = (case py_index (length xs) i of None \<Rightarrow> None | Some j \<Rightarrow> Some (xs ! j))"

definition py_set :: "'a list \<Rightarrow> int \<Rightarrow> 'a \<Rightarrow> 'a list option" where
  "py_set xs i v = (case py_index (length xs) i of None \<Rightarrow> None | Some j \<Rightarrow> Some (xs[j := v]))"

section \<open>ChessBoard\<close>

datatype kind = PAWN | ROOK | KNGT | BISH | QUEN | KING

datatype color = BLACK | WHITE

text \<open>The string constants of class ChessBoard behind the two enumerations.\<close>

fun kind_str :: "kind \<Rightarrow> string" where
  "kind_str PAWN = ''P''"
| "kind_str ROOK = ''R''"
| "kind_str KNGT = ''N''"
| "kind_str BISH = ''B''"
| "kind_str QUEN = ''Q''"
| "kind_str KING = ''K''"

fun color_str :: "color \<Rightarrow> string" where
  "color_str BLACK = ''X''"
| "color_str WHITE = ''O''"

definition BOARD_SIZE :: int where
  "BOARD_SIZE = 8"

text \<open>
  A square of the board holds \<open>None\<close> or a tuple \<open>(color, kind)\<close>. \<open>entry_val\<close> is the
  Python value of such an entry, used where the source compares an entry with a
  value of another type.
\<close>

type_synonym entry = "(color \<times> kind) option"

fun entry_val :: "entry \<Rightarrow> pyval" where
  "entry_val None = PyNone"
| "entry_val (Some (c, k)) = PyTuple [PyStr (color_str c), PyStr (kind_str k)]"

text \<open>
  \<open>self.board\<close> is a list of references to row objects (Python lists). Two ranks may
  refer to the same row object, so the rows live in a store \<open>rows\<close>, and \<open>board\<close> holds
  for each rank the position of its row object in the store.
  \<open>flag_enpassant\<close> and \<open>flag_canCastle\<close> are the two dicts keyed by colour.
\<close>

record ChessBoard =
  board :: "nat list"
  rows :: "entry list list"
  flag_enpassant :: "color \<Rightarrow> bool list"
  flag_canCastle :: "color \<Rightarrow> bool \<times> bool"

text \<open>\<open>self.board[r][f]\<close>, read and written; \<open>None\<close> is a raised IndexError.\<close>

definition row_ref :: "ChessBoard \<Rightarrow> int \<Rightarrow> nat option" where
  "row_ref b r =
     (case py_get (board b) r of
        None \<Rightarrow> None
      | Some a \<Rightarrow> if a < length (rows b) then Some a else None)"

definition board_get :: "ChessBoard \<Rightarrow> int \<Rightarrow> int \<Rightarrow> entry option" where
  "board_get b r f =
     (case row_ref b r of
        None \<Rightarrow> None
      | Some a \<Rightarrow> py_get (rows b ! a) f)"

definition board_set :: "ChessBoard \<Rightarrow> int \<Rightarrow> int \<Rightarrow> entry \<Rightarrow> ChessBoard option" where
  "board_set b r f v =
     (case row_ref b r of
        None \<Rightarrow> None
      | Some a \<Rightarrow>
          (case py_set (rows b ! a) f v of
             None \<Rightarrow> None
           | Some row' \<Rightarrow> Some (b\<lparr>rows := (rows b)[a := row']\<rparr>)))"

text \<open>
  \<open>ChessBoard.__init__\<close> with \<open>startBoard == None\<close>. The source builds the four middle
  ranks as \<open>[[None] * 8] * 4\<close>: one row object, referred to four times.
\<close>

definition init_rows :: "entry list list" where
  "init_rows =
     [[Some (WHITE, ROOK), Some (WHITE, KNGT), Some (WHITE, BISH), Some (WHITE, QUEN),
       Some (WHITE, KING), Some (WHITE, BISH), Some (WHITE, KNGT), Some (WHITE, ROOK)],
      replicate 8 (Some (WHITE, PAWN)),
      replicate 8 None,
      replicate 8 (Some (BLACK, PAWN)),
      [Some (BLACK, ROOK), Some (BLACK, KNGT), Some (BLACK, BISH), Some (BLACK, QUEN),
       Some (BLACK, KING), Some (BLACK, BISH), Some (BLACK, KNGT), Some (BLACK, ROOK)]]"

definition ChessBoard_init :: ChessBoard where
  "ChessBoard_init =
     \<lparr>board = [0, 1] @ replicate 4 2 @ [3, 4],
      rows = init_rows,
      flag_enpassant = (\<lambda>c. replicate (nat BOARD_SIZE) False),
      flag_canCastle = (\<lambda>c. (True, True))\<rparr>"

text \<open>
  The pawn branch of \<open>isLegalMove\<close>: true when one of its \<open>return False\<close> statements is
  reached.
\<close>

definition pawn_rejected :: "color \<Rightarrow> int \<Rightarrow> int \<Rightarrow> int \<Rightarrow> int \<Rightarrow> entry \<Rightarrow> bool" where
  "pawn_rejected c fromRank fromFile toRank toFile destin_entry =
     (let pawnStartRank = (if c = WHITE then 2 else 6);
          direction = (if c = WHITE then 1 else - 1);
          rank_delta = (toRank - fromRank) * direction;
          file_delta_abs = \<bar>toFile - fromFile\<bar>
      in if rank_delta \<notin> set [1, 2] then True
         else if rank_delta = 1 then
           (if file_delta_abs \<notin> set [0, 1] then True
            else if file_delta_abs = 1 \<and> destin_entry = None then True
            else if file_delta_abs = 0 \<and> destin_entry \<noteq> None then True
            else False)
         else
           (if file_delta_abs \<noteq> 0 then True
            else if fromFile \<noteq> pawnStartRank then True
            else False))"

definition isLegalMove :: "ChessBoard \<Rightarrow> color \<Rightarrow> int \<Rightarrow> int \<Rightarrow> int \<Rightarrow> int \<Rightarrow> bool option" where
  "isLegalMove b c fromRank fromFile toRank toFile =
     (case board_get b fromRank fromFile of
        None \<Rightarrow> None
      | Some origin_entry \<Rightarrow>
     (case board_get b toRank toFile of
        None \<Rightarrow> None
      | Some destin_entry \<Rightarrow>
     (case origin_entry of
        None \<Rightarrow> Some False
      | Some (origin_color, origin_type) \<Rightarrow>
          if origin_color \<noteq> c then Some False
          else if origin_type = PAWN
                  \<and> pawn_rejected c fromRank fromFile toRank toFile destin_entry
          then Some False
          else (case destin_entry of
                  None \<Rightarrow> Some True
                | Some (destin_color, destin_type) \<Rightarrow>
                    if destin_color = c then Some False else Some True))))"

text \<open>
  \<open>ChessBoard.makePly\<close>. The result is \<open>None\<close> when an index is out of range (the
  IndexError leaves the method), otherwise the returned boolean and the board
  after the call. \<open>movedPiece\<close> is the entry of the origin square, a tuple, and the
  source compares it with the piece-kind constants, which are strings.
\<close>

definition ChessBoard_makePly ::
    "ChessBoard \<Rightarrow> color \<Rightarrow> int \<Rightarrow> int \<Rightarrow> int \<Rightarrow> int \<Rightarrow> (bool \<times> ChessBoard) option" where
  "ChessBoard_makePly b c fromRank fromFile toRank toFile =
     do {
       legal \<leftarrow> isLegalMove b c fromRank fromFile toRank toFile;
       if \<not> legal then Some (False, b)
       else do {
         movedPiece \<leftarrow> board_get b fromRank fromFile;
         b1 \<leftarrow> board_set b fromRank fromFile None;
         let b2 = b1\<lparr>flag_enpassant :=
                      (flag_enpassant b1)(c := replicate (nat BOARD_SIZE) False)\<rparr>;
         let prevCastleFlag = flag_canCastle b2 c;
         let b3 = (if entry_val movedPiece = PyStr (kind_str KING)
                   then b2\<lparr>flag_canCastle := (flag_canCastle b2)(c := (False, False))\<rparr>
                   else b2);
         let b4 = (if entry_val movedPiece = PyStr (kind_str ROOK)
                   then (if fromFile = 0
                         then b3\<lparr>flag_canCastle :=
                                   (flag_canCastle b3)(c := (False, snd prevCastleFlag))\<rparr>
                         else if fromFile = 7
                         then b3\<lparr>flag_canCastle :=
                                   (flag_canCastle b3)(c := (fst prevCastleFlag, False))\<rparr>
                         else b3)
                   else b3);
         b5 \<leftarrow> (if entry_val movedPiece = PyStr (kind_str PAWN)
                   \<and> fromRank = (case c of WHITE \<Rightarrow> 1 | BLACK \<Rightarrow> 6)
                   \<and> \<bar>toRank - fromRank\<bar> = 2
                then do {
                  flags \<leftarrow> py_set (flag_enpassant b4 c) fromFile True;
                  Some (b4\<lparr>flag_enpassant := (flag_enpassant b4)(c := flags)\<rparr>)
                }
                else Some b4);
         b6 \<leftarrow> board_set b5 toRank toFile movedPiece;
         flag \<leftarrow> py_get (flag_enpassant b6 c) toFile;
         b7 \<leftarrow> (if flag
                then (if c = WHITE \<and> toRank = BOARD_SIZE - 2
                      then board_set b6 (BOARD_SIZE - 2) toFile None
                      else if c = BLACK \<and> toRank = 1
                      then board_set b6 2 toFile None
                      else Some b6)
                else Some b6);
         Some (True, b7)
       }
     }"

section \<open>ChessMatch\<close>

datatype status =
    STATUS_PENDING | STATUS_ONGOING | STATUS_BLACK_WON | STATUS_WHITE_WON
  | STATUS_DRAWN | STATUS_CANCELLED

text \<open>
  \<open>players\<close> is the dict from colour to playerID (or \<open>None\<close>); \<open>history\<close> is the list of
  plies \<open>((fromRank, fromFile), (toRank, toFile))\<close>.
\<close>

record ChessMatch =
  match_board :: ChessBoard
  players :: "color \<Rightarrow> int option"
  status :: status
  history :: "((int \<times> int) \<times> (int \<times> int)) list"

text \<open>
  \<open>ChessMatch.__init__\<close>. \<open>choice\<close> is the colour that \<open>random.choice\<close> returns.
\<close>

definition ChessMatch_init :: "int option \<Rightarrow> color \<Rightarrow> ChessMatch" where
  "ChessMatch_init firstPlayerID choice =
     \<lparr>match_board = ChessBoard_init,
      players = (\<lambda>c. None)(choice := firstPlayerID),
      status = STATUS_PENDING,
      history = []\<rparr>"

definition whoseTurn :: "ChessMatch \<Rightarrow> color" where
  "whoseTurn m = (if length (history m) mod 2 = 0 then WHITE else BLACK)"

text \<open>
  \<open>ChessMatch.makePly\<close>: the returned message and the match after the call;
  \<open>None\<close> when the board raised IndexError.
\<close>

definition ChessMatch_makePly ::
    "ChessMatch \<Rightarrow> int \<Rightarrow> int \<Rightarrow> int \<Rightarrow> int \<Rightarrow> int \<Rightarrow> (string \<times> ChessMatch) option" where
  "ChessMatch_makePly m player fromRank fromFile toRank toFile =
     (if status m = STATUS_ONGOING then
        (case (if players m WHITE = Some player then Some WHITE
               else if players m BLACK = Some player then Some BLACK
               else None) of
           None \<Rightarrow> Some (''You are not a player in this game'', m)
         | Some c \<Rightarrow>
             if c \<noteq> whoseTurn m then Some (''It is not your turn'', m)
             else
               (case ChessBoard_makePly (match_board m) c fromRank fromFile toRank toFile of
                  None \<Rightarrow> None
                | Some (ok, b') \<Rightarrow>
                    if ok
                    then Some (''SUCCESS'',
                               m\<lparr>match_board := b',
                                 history := history m @ [((fromRank, fromFile), (toRank, toFile))]\<rparr>)
                    else Some (''Illegal move'', m\<lparr>match_board := b'\<rparr>)))
      else Some (''Game not in progress'', m))"

text \<open>
  \<open>ChessMatch.join\<close>: the returned colour (or \<open>None\<close>) and the match after the call.
  \<open>join_slots\<close> is the loop over \<open>[WHITE, BLACK]\<close>.
\<close>

fun join_slots :: "color list \<Rightarrow> ChessMatch \<Rightarrow> int \<Rightarrow> color option \<times> ChessMatch" where
  "join_slots [] m playerID = (None, m)"
| "join_slots (c # cs) m playerID =
     (if players m c = None then
        (let m1 = m\<lparr>players := (players m)(c := Some playerID)\<rparr>;
             m2 = (if None \<notin> set [players m1 WHITE, players m1 BLACK]
                   then m1\<lparr>status := STATUS_ONGOING\<rparr> else m1)
         in (Some c, m2))
      else join_slots cs m playerID)"

definition join :: "ChessMatch \<Rightarrow> int \<Rightarrow> color option \<times> ChessMatch" where
  "join m playerID =
     (if status m \<noteq> STATUS_PENDING then (None, m)
      else if Some playerID \<in> set [players m WHITE, players m BLACK] then (None, m)
      else join_slots [WHITE, BLACK] m playerID)"

section \<open>TournamentSystem\<close>

text \<open>
  The two dicts of the registry, as association lists with unique keys: \<open>games\<close> from
  gameID to match, \<open>ts_players\<close> (the source's \<open>players\<close>) from playerID to name.
\<close>

record TournamentSystem =
  games :: "(int \<times> ChessMatch) list"
  ts_players :: "(int \<times> string) list"

definition TournamentSystem_init :: TournamentSystem where
  "TournamentSystem_init = \<lparr>games = [], ts_players = []\<rparr>"

text \<open>
  \<open>_getUniqueInt\<close>. \<open>draws\<close> are the values that successive calls of
  \<open>random.randint(1, 2**32 - 1)\<close> return; the loop redraws while the value is in
  \<open>intList\<close>. The outer \<open>None\<close> means that the draws supplied ran out before the loop
  ended.
\<close>

fun draw_unique :: "int list \<Rightarrow> int list \<Rightarrow> int option" where
  "draw_unique intList [] = None"
| "draw_unique intList (n # draws) =
     (if n \<in> set intList then draw_unique intList draws else Some n)"

definition getUniqueInt :: "int list \<Rightarrow> int list \<Rightarrow> (error + int) option" where
  "getUniqueInt intList draws =
     (let maxSize = (2::int) ^ 31
      in if int (length intList) \<ge> maxSize then Some (Inl RuntimeError)
         else map_option Inr (draw_unique intList draws))"

text \<open>
  The first loop of \<open>joinGame\<close> is \<open>for (gameID, game) in self.games\<close>: iterating a dict
  yields its keys, and each key is unpacked into the two targets. \<open>unpack2\<close> is that
  unpacking. The body then calls \<open>game.getStatus()\<close> on the second component; no
  value of \<open>pyval\<close> has such a method (nor has class ChessMatch), so the call raises
  AttributeError. \<open>joinGame_scan\<close> returns the exception that leaves the loop, or
  \<open>None\<close> when the loop ends without returning.
\<close>

fun unpack2 :: "pyval \<Rightarrow> error + (pyval \<times> pyval)" where
  "unpack2 (PyTuple [a, b]) = Inr (a, b)"
| "unpack2 (PyTuple _) = Inl ValueError"
| "unpack2 (PyStr [a, b]) = Inr (PyStr [a], PyStr [b])"
| "unpack2 (PyStr _) = Inl ValueError"
| "unpack2 _ = Inl TypeError"

fun joinGame_scan :: "pyval list \<Rightarrow> error option" where
  "joinGame_scan [] = None"
| "joinGame_scan (item # items) =
     (case unpack2 item of
        Inl e \<Rightarrow> Some e
      | Inr (gameID, game) \<Rightarrow> Some AttributeError)"

text \<open>
  \<open>TournamentSystem.joinGame\<close>: \<open>Inl\<close> an exception, \<open>Inr\<close> the returned
  \<open>(True, {"gameID": id})\<close> with the registry after the call.
\<close>

definition joinGame ::
    "TournamentSystem \<Rightarrow> int \<Rightarrow> color \<Rightarrow> int list
       \<Rightarrow> (error + ((bool \<times> (string \<times> int) list) \<times> TournamentSystem)) option" where
  "joinGame ts playerID choice draws =
     (case joinGame_scan (map (\<lambda>(k, g). PyInt k) (games ts)) of
        Some e \<Rightarrow> Some (Inl e)
      | None \<Rightarrow>
          (let newGame = ChessMatch_init (Some playerID) choice
           in case getUniqueInt (map fst (games ts)) draws of
                None \<Rightarrow> None
              | Some (Inl e) \<Rightarrow> Some (Inl e)
              | Some (Inr newID) \<Rightarrow>
                  Some (Inr ((True, [(''gameID'', newID)]),
                             ts\<lparr>games := AList.update newID newGame (games ts)\<rparr>))))"

text \<open>
  A call \<open>game.makePly(args)\<close> of the method \<open>ChessMatch.makePly(self, player,
  fromRank, fromFile, toRank, toFile)\<close>: Python raises TypeError before the body runs
  unless exactly five arguments are passed.
\<close>

definition call_ChessMatch_makePly ::
    "ChessMatch \<Rightarrow> int list \<Rightarrow> error + (string \<times> ChessMatch)" where
  "call_ChessMatch_makePly m args =
     (case args of
        [player, fromRank, fromFile, toRank, toFile] \<Rightarrow>
          (case ChessMatch_makePly m player fromRank fromFile toRank toFile of
             None \<Rightarrow> Inl IndexError
           | Some r \<Rightarrow> Inr r)
      | _ \<Rightarrow> Inl TypeError)"

text \<open>
  \<open>TournamentSystem.makePly\<close>: \<open>Inl\<close> an exception, \<open>Inr\<close> the returned pair
  \<open>(True, {})\<close> or \<open>(False, {"error": reason})\<close> with the registry after the call.
\<close>

definition TournamentSystem_makePly ::
    "TournamentSystem \<Rightarrow> int \<Rightarrow> int \<Rightarrow> int \<Rightarrow> int \<Rightarrow> int \<Rightarrow> int
       \<Rightarrow> error + ((bool \<times> (string \<times> string) list) \<times> TournamentSystem)" where
  "TournamentSystem_makePly ts playerID gameID fromRank fromFile toRank toFile =
     (case map_of (games ts) gameID of
        Some game \<Rightarrow>
          (case call_ChessMatch_makePly game
                  [playerID, gameID, fromRank, fromFile, toRank, toFile] of
             Inl e \<Rightarrow> Inl e
           | Inr (result, game') \<Rightarrow>
               (let ts' = ts\<lparr>games := AList.update gameID game' (games ts)\<rparr>
                in if result = ''SUCCESS'' then Inr ((True, []), ts')
                   else Inr ((False, [(''error'', result)]), ts')))
      | None \<Rightarrow> Inr ((False, [(''error'', ''Invalid game ID'')]), ts))"

section \<open>Observations used in the statements\<close>

text \<open>The exception a call raised, if it raised one.\<close>

definition raised :: "error + 'a \<Rightarrow> error option" where
  "raised r = (case r of Inl e \<Rightarrow> Some e | Inr v \<Rightarrow> None)"

text \<open>
  A match in progress: player 1 was given WHITE at creation, player 2 joined.
\<close>

definition ongoing_match :: ChessMatch where
  "ongoing_match = snd (join (ChessMatch_init (Some 1) WHITE) 2)"

section \<open>Facts about the board engine\<close>

text \<open>
  An entry of the board is \<open>None\<close> or a tuple, so it never equals a piece-kind
  constant, which is a string.
\<close>

lemma entry_val_not_str: "entry_val e \<noteq> PyStr s"
  by (cases e) auto

lemma board_set_keeps_flags:
  "board_set b r f v = Some b' \<Longrightarrow>
     flag_canCastle b' = flag_canCastle b \<and> flag_enpassant b' = flag_enpassant b
     \<and> board b' = board b"
  by (auto simp: board_set_def split: option.splits)

text \<open>
  Consequently no call of \<open>ChessBoard.makePly\<close> changes a castling flag, and an applied
  move leaves the mover's en-passant flags all false, whatever piece moved.
\<close>

lemma makePly_keeps_canCastle:
  "ChessBoard_makePly b c fr ff tr tf = Some (r, b') \<Longrightarrow> flag_canCastle b' = flag_canCastle b"
  by (auto simp: ChessBoard_makePly_def entry_val_not_str Let_def
        dest!: board_set_keeps_flags split: bind_splits if_splits)

lemma makePly_clears_enpassant:
  "ChessBoard_makePly b c fr ff tr tf = Some (True, b') \<Longrightarrow>
     flag_enpassant b' = (flag_enpassant b)(c := replicate 8 False)"
  by (auto simp: ChessBoard_makePly_def entry_val_not_str Let_def BOARD_SIZE_def
        dest!: board_set_keeps_flags split: bind_splits if_splits)

text \<open>
  C1. The claim: a non-pawn move is legal only if it has the shape of its piece
  kind (rook along a free rank or file, knight in an L, and so on).
  On the code: in the start position the knight on (0,1) may go to (4,4), a
  displacement of (4,3); the rook on (0,0) may go to (6,0), across its own pawn on
  (1,0), and to (3,5), which is neither on its rank nor on its file.
\<close>

theorem isLegalMove_ignores_piece_shape:
  "board_get ChessBoard_init 0 1 = Some (Some (WHITE, KNGT))
   \<and> isLegalMove ChessBoard_init WHITE 0 1 4 4 = Some True
   \<and> board_get ChessBoard_init 0 0 = Some (Some (WHITE, ROOK))
   \<and> board_get ChessBoard_init 1 0 = Some (Some (WHITE, PAWN))
   \<and> isLegalMove ChessBoard_init WHITE 0 0 6 0 = Some True
   \<and> isLegalMove ChessBoard_init WHITE 0 0 3 5 = Some True"
  by code_simp

text \<open>
  C3. The claim: a WHITE pawn on (1, f) may advance to (3, f) exactly when (2, f)
  and (3, f) are empty.
  On the code: in the start position the pawn on (1,0) has (2,0) and (3,0) empty
  and its advance to (3,0) is refused; the code compares the origin file, not
  the origin rank, with the start rank, which it takes to be 2.
\<close>

theorem isLegalMove_refuses_double_advance:
  "board_get ChessBoard_init 1 0 = Some (Some (WHITE, PAWN))
   \<and> board_get ChessBoard_init 2 0 = Some None
   \<and> board_get ChessBoard_init 3 0 = Some None
   \<and> isLegalMove ChessBoard_init WHITE 1 0 3 0 = Some False"
  by code_simp

text \<open>
  C5. The claim: after a legal move of a colour's king its castling flags are
  (False, False).
  On the code: from the start position WHITE plays the pawn (1,4) to (2,4) and
  then the king (0,4) to (1,4); both plies are applied, the king stands on (1,4),
  and WHITE's castling flags are still (True, True).
\<close>

theorem king_move_keeps_castling_flags:
  "(case ChessBoard_makePly ChessBoard_init WHITE 1 4 2 4 of
      None \<Rightarrow> None
    | Some (r1, b1) \<Rightarrow>
        (case ChessBoard_makePly b1 WHITE 0 4 1 4 of
           None \<Rightarrow> None
         | Some (r2, b2) \<Rightarrow>
             Some (r1, board_get b1 0 4, r2, board_get b2 0 4, board_get b2 1 4,
                   flag_canCastle b2 WHITE)))
   = Some (True, Some (Some (WHITE, KING)), True, Some None, Some (Some (WHITE, KING)),
           (True, True))"
  by code_simp

text \<open>
  C6. The claim: a pawn's first two-square advance sets the mover's en-passant flag
  of that file.
  On the code: in the start position the advance of the WHITE pawn from (1,2) to
  (3,2) is applied and WHITE's en-passant flag of file 2 is false afterwards.
\<close>

theorem double_advance_sets_no_enpassant_flag:
  "(case ChessBoard_makePly ChessBoard_init WHITE 1 2 3 2 of
      None \<Rightarrow> None
    | Some (r, b') \<Rightarrow> Some (r, board_get b' 3 2, py_get (flag_enpassant b' WHITE) 2))
   = Some (True, Some (Some (WHITE, PAWN)), Some False)"
  by code_simp

text \<open>
  C7. When \<open>isLegalMove\<close> returns False, \<open>ChessBoard.makePly\<close> returns False and the
  board after the call is the board before it: the grid, the en-passant flags and
  the castling flags of both colours.
\<close>

theorem makePly_rejection_changes_nothing:
  assumes "isLegalMove b c fromRank fromFile toRank toFile = Some False"
  shows "ChessBoard_makePly b c fromRank fromFile toRank toFile = Some (False, b)"
  using assms unfolding ChessBoard_makePly_def by simp

text \<open>
  Witness for C7: the refused double advance of the pawn on (1,0) in the start
  position.
\<close>

theorem makePly_rejection_changes_nothing_witness:
  "isLegalMove ChessBoard_init WHITE 1 0 3 0 = Some False
   \<and> ChessBoard_makePly ChessBoard_init WHITE 1 0 3 0 = Some (False, ChessBoard_init)"
proof -
  have refused: "isLegalMove ChessBoard_init WHITE 1 0 3 0 = Some False"
    by code_simp
  from refused makePly_rejection_changes_nothing [OF refused] show ?thesis
    by simp
qed

text \<open>
  C10. The claim: on a board in the start state, an applied move changes the origin,
  the destination and (on an en-passant capture) the captured pawn's square only.
  On the code: ranks 2 to 5 of the start board are one row object. The move of the
  WHITE pawn from (1,0) to (2,0) is applied, and afterwards (3,0), (4,0) and (5,0),
  empty before, hold a WHITE pawn as well.
\<close>

theorem pawn_step_writes_four_ranks:
  "board_get ChessBoard_init 3 0 = Some None
   \<and> board_get ChessBoard_init 4 0 = Some None
   \<and> board_get ChessBoard_init 5 0 = Some None
   \<and> (case ChessBoard_makePly ChessBoard_init WHITE 1 0 2 0 of
         None \<Rightarrow> None
       | Some (r, b') \<Rightarrow>
           Some (r, board_get b' 1 0, board_get b' 2 0,
                 board_get b' 3 0, board_get b' 4 0, board_get b' 5 0))
     = Some (True, Some None, Some (Some (WHITE, PAWN)),
             Some (Some (WHITE, PAWN)), Some (Some (WHITE, PAWN)), Some (Some (WHITE, PAWN)))"
  by code_simp

section \<open>Facts about matches\<close>

text \<open>
  C8. For a match with ply history of length n, \<open>whoseTurn\<close> is WHITE exactly when n
  is even. \<open>ChessMatch.makePly\<close> called by a player who occupies the colour that is
  not to move, and not the colour to move, fails and leaves the match (players,
  status, board and history) as it was, whatever the status: the answer is
  "It is not your turn" when the status is ONGOING and "Game not in progress"
  otherwise. Every call on a match whose status is not ONGOING, by whatever caller,
  is answered "Game not in progress" and leaves the match as it was.
\<close>

theorem not_to_move_player_is_refused:
  "(whoseTurn m = WHITE \<longleftrightarrow> even (length (history m)))
   \<and> (players m c = Some p \<and> c \<noteq> whoseTurn m \<and> players m (whoseTurn m) \<noteq> Some p
      \<longrightarrow> ChessMatch_makePly m p fromRank fromFile toRank toFile
            = Some (if status m = STATUS_ONGOING then ''It is not your turn''
                    else ''Game not in progress'', m))
   \<and> (status m \<noteq> STATUS_ONGOING
      \<longrightarrow> ChessMatch_makePly m q fromRank fromFile toRank toFile
            = Some (''Game not in progress'', m))"
proof (intro conjI impI)
  show "whoseTurn m = WHITE \<longleftrightarrow> even (length (history m))"
    by (simp add: whoseTurn_def even_iff_mod_2_eq_zero)
next
  assume "status m \<noteq> STATUS_ONGOING"
  then show "ChessMatch_makePly m q fromRank fromFile toRank toFile
               = Some (''Game not in progress'', m)"
    by (simp add: ChessMatch_makePly_def)
next
  assume h: "players m c = Some p \<and> c \<noteq> whoseTurn m \<and> players m (whoseTurn m) \<noteq> Some p"
  show "ChessMatch_makePly m p fromRank fromFile toRank toFile
          = Some (if status m = STATUS_ONGOING then ''It is not your turn''
                  else ''Game not in progress'', m)"
  proof (cases "status m = STATUS_ONGOING")
    case False
    then show ?thesis
      by (simp add: ChessMatch_makePly_def)
  next
    case True
    show ?thesis
    proof (cases c)
      case BLACK
      with h have "whoseTurn m = WHITE"
        by (cases "whoseTurn m") auto
      with h BLACK True show ?thesis
        by (simp add: ChessMatch_makePly_def)
    next
      case WHITE
      with h have "whoseTurn m = BLACK"
        by (cases "whoseTurn m") auto
      with h WHITE True show ?thesis
        by (simp add: ChessMatch_makePly_def)
    qed
  qed
qed

text \<open>
  Witness for C8: in the match of players 1 (WHITE) and 2 (BLACK) with no ply made,
  player 2 asks for a move; in the new match that holds player 1 alone, as BLACK,
  player 1 asks for a move, and so does player 5, who is not in the match.
\<close>

theorem not_to_move_player_is_refused_witness:
  "status ongoing_match = STATUS_ONGOING
   \<and> players ongoing_match BLACK = Some 2
   \<and> whoseTurn ongoing_match = WHITE
   \<and> players ongoing_match WHITE = Some 1
   \<and> ChessMatch_makePly ongoing_match 2 6 0 5 0 = Some (''It is not your turn'', ongoing_match)
   \<and> status (ChessMatch_init (Some 1) BLACK) = STATUS_PENDING
   \<and> players (ChessMatch_init (Some 1) BLACK) BLACK = Some 1
   \<and> whoseTurn (ChessMatch_init (Some 1) BLACK) = WHITE
   \<and> players (ChessMatch_init (Some 1) BLACK) WHITE = None
   \<and> ChessMatch_makePly (ChessMatch_init (Some 1) BLACK) 1 6 0 5 0
       = Some (''Game not in progress'', ChessMatch_init (Some 1) BLACK)
   \<and> ChessMatch_makePly (ChessMatch_init (Some 1) BLACK) 5 1 0 2 0
       = Some (''Game not in progress'', ChessMatch_init (Some 1) BLACK)"
proof -
  have facts: "status ongoing_match = STATUS_ONGOING" "players ongoing_match BLACK = Some 2"
    "whoseTurn ongoing_match = WHITE" "players ongoing_match WHITE = Some 1"
    by code_simp+
  have pending: "status (ChessMatch_init (Some 1) BLACK) = STATUS_PENDING"
    "players (ChessMatch_init (Some 1) BLACK) BLACK = Some 1"
    "whoseTurn (ChessMatch_init (Some 1) BLACK) = WHITE"
    "players (ChessMatch_init (Some 1) BLACK) WHITE = None"
    by code_simp+
  from facts
    not_to_move_player_is_refused
      [where m = ongoing_match and c = BLACK and p = 2
         and fromRank = 6 and fromFile = 0 and toRank = 5 and toFile = 0]
  have turn: "ChessMatch_makePly ongoing_match 2 6 0 5 0
                = Some (''It is not your turn'', ongoing_match)"
    by simp
  from pending
    not_to_move_player_is_refused
      [where m = "ChessMatch_init (Some 1) BLACK" and c = BLACK and p = 1
         and fromRank = 6 and fromFile = 0 and toRank = 5 and toFile = 0]
  have idle: "ChessMatch_makePly (ChessMatch_init (Some 1) BLACK) 1 6 0 5 0
                = Some (''Game not in progress'', ChessMatch_init (Some 1) BLACK)"
    by simp
  from pending
    not_to_move_player_is_refused
      [where m = "ChessMatch_init (Some 1) BLACK" and q = 5
         and fromRank = 1 and fromFile = 0 and toRank = 2 and toFile = 0]
  have stranger: "ChessMatch_makePly (ChessMatch_init (Some 1) BLACK) 5 1 0 2 0
                = Some (''Game not in progress'', ChessMatch_init (Some 1) BLACK)"
    by simp
  from facts pending turn idle stranger show ?thesis
    by simp
qed

text \<open>
  Counterexample to C8 as stated for every match: a new match whose only player, 1,
  was given BLACK is PENDING with WHITE to move; the call by player 1 is answered
  "Game not in progress", not "It is not your turn", and the match is as it was.
\<close>

theorem pending_match_answers_not_in_progress:
  "status (ChessMatch_init (Some 1) BLACK) = STATUS_PENDING
   \<and> players (ChessMatch_init (Some 1) BLACK) BLACK = Some 1
   \<and> whoseTurn (ChessMatch_init (Some 1) BLACK) = WHITE
   \<and> map_option fst (ChessMatch_makePly (ChessMatch_init (Some 1) BLACK) 1 6 0 5 0)
       = Some ''Game not in progress''
   \<and> ChessMatch_makePly (ChessMatch_init (Some 1) BLACK) 1 6 0 5 0
       = Some (''Game not in progress'', ChessMatch_init (Some 1) BLACK)
   \<and> ChessMatch_makePly (ChessMatch_init (Some 1) BLACK) 1 6 0 5 0
       \<noteq> Some (''It is not your turn'', ChessMatch_init (Some 1) BLACK)"
proof -
  have pending: "status (ChessMatch_init (Some 1) BLACK) = STATUS_PENDING"
    "players (ChessMatch_init (Some 1) BLACK) BLACK = Some 1"
    "whoseTurn (ChessMatch_init (Some 1) BLACK) = WHITE"
    by code_simp+
  then have answer: "ChessMatch_makePly (ChessMatch_init (Some 1) BLACK) 1 6 0 5 0
       = Some (''Game not in progress'', ChessMatch_init (Some 1) BLACK)"
    by (simp add: ChessMatch_makePly_def)
  from pending answer show ?thesis
    by simp
qed

text \<open>
  C9. \<open>join\<close> returns none and changes nothing if the status is not PENDING, if the
  player already occupies a slot, or if both slots are filled. Otherwise it returns
  a colour whose slot was empty, with the player stored in that slot, and the
  status becomes ONGOING exactly when the other slot was filled already.
\<close>

theorem join_outcomes:
  "(status m \<noteq> STATUS_PENDING \<or> players m WHITE = Some p \<or> players m BLACK = Some p
      \<or> (players m WHITE \<noteq> None \<and> players m BLACK \<noteq> None)
    \<longrightarrow> join m p = (None, m))
   \<and> (status m = STATUS_PENDING \<and> players m WHITE \<noteq> Some p \<and> players m BLACK \<noteq> Some p
        \<and> (players m WHITE = None \<or> players m BLACK = None)
      \<longrightarrow> (\<exists>c. players m c = None
              \<and> join m p =
                  (Some c,
                   m\<lparr>players := (players m)(c := Some p),
                     status := (if players m WHITE = None \<and> players m BLACK = None
                                then STATUS_PENDING else STATUS_ONGOING)\<rparr>)))"
proof (intro conjI impI)
  assume "status m \<noteq> STATUS_PENDING \<or> players m WHITE = Some p \<or> players m BLACK = Some p
            \<or> (players m WHITE \<noteq> None \<and> players m BLACK \<noteq> None)"
  then show "join m p = (None, m)"
    by (auto simp: join_def)
next
  assume h: "status m = STATUS_PENDING \<and> players m WHITE \<noteq> Some p \<and> players m BLACK \<noteq> Some p
               \<and> (players m WHITE = None \<or> players m BLACK = None)"
  show "\<exists>c. players m c = None
          \<and> join m p =
              (Some c,
               m\<lparr>players := (players m)(c := Some p),
                 status := (if players m WHITE = None \<and> players m BLACK = None
                            then STATUS_PENDING else STATUS_ONGOING)\<rparr>)"
  proof (cases "players m WHITE")
    case None
    with h show ?thesis
      by (cases "players m BLACK") (auto simp: join_def Let_def intro!: exI [of _ WHITE])
  next
    case (Some w)
    with h have "players m BLACK = None" by simp
    with h Some show ?thesis
      by (auto simp: join_def Let_def intro!: exI [of _ BLACK])
  qed
qed

text \<open>
  Witness for C9: into the new match of player 1 (WHITE), player 1 cannot join again
  and player 2 joins, which starts the game.
\<close>

theorem join_outcomes_witness:
  "players (ChessMatch_init (Some 1) WHITE) WHITE = Some 1
   \<and> join (ChessMatch_init (Some 1) WHITE) 1 = (None, ChessMatch_init (Some 1) WHITE)
   \<and> status (ChessMatch_init (Some 1) WHITE) = STATUS_PENDING
   \<and> players (ChessMatch_init (Some 1) WHITE) BLACK = None
   \<and> fst (join (ChessMatch_init (Some 1) WHITE) 2) = Some BLACK
   \<and> status (snd (join (ChessMatch_init (Some 1) WHITE) 2)) = STATUS_ONGOING"
proof -
  have facts: "players (ChessMatch_init (Some 1) WHITE) WHITE = Some 1"
    "status (ChessMatch_init (Some 1) WHITE) = STATUS_PENDING"
    "players (ChessMatch_init (Some 1) WHITE) BLACK = None"
    by code_simp+
  from facts join_outcomes [of "ChessMatch_init (Some 1) WHITE" 1]
  have again: "join (ChessMatch_init (Some 1) WHITE) 1 = (None, ChessMatch_init (Some 1) WHITE)"
    by simp
  from facts join_outcomes [of "ChessMatch_init (Some 1) WHITE" 2]
  obtain c where c: "players (ChessMatch_init (Some 1) WHITE) c = None"
    and j: "join (ChessMatch_init (Some 1) WHITE) 2 =
        (Some c, (ChessMatch_init (Some 1) WHITE)
           \<lparr>players := (players (ChessMatch_init (Some 1) WHITE))(c := Some 2),
            status := STATUS_ONGOING\<rparr>)"
    by auto
  from c facts have "c = BLACK"
    by (cases c) auto
  with j facts again show ?thesis
    by simp
qed

section \<open>Facts about the registry\<close>

text \<open>
  A known gameID always leads to the call of \<open>ChessMatch.makePly\<close> with six
  arguments, and a registry that holds a game always enters the loop of
  \<open>joinGame\<close>, whose first step unpacks an integer key.
\<close>

lemma makePly_unknown_game:
  "map_of (games ts) g = None \<Longrightarrow>
     TournamentSystem_makePly ts p g fr ff tr tf
       = Inr ((False, [(''error'', ''Invalid game ID'')]), ts)"
  by (simp add: TournamentSystem_makePly_def)

lemma makePly_known_game:
  "map_of (games ts) g = Some m \<Longrightarrow> TournamentSystem_makePly ts p g fr ff tr tf = Inl TypeError"
  by (simp add: TournamentSystem_makePly_def call_ChessMatch_makePly_def)

lemma joinGame_nonempty_registry:
  "games ts \<noteq> [] \<Longrightarrow> joinGame ts p c draws = Some (Inl TypeError)"
  by (cases "games ts") (auto simp: joinGame_def split: prod.splits)

text \<open>
  C2. The claim: for a known gameID, \<open>TournamentSystem.makePly\<close> delegates the ply to
  the match and translates the match's answer.
  On the code: in the registry that holds the one game 7 (created by
  \<open>joinGame\<close> for player 1), the call for game 7 raises TypeError.
\<close>

theorem makePly_of_known_game_raises:
  "(case joinGame TournamentSystem_init 1 WHITE [7] of
      Some (Inr (answer, ts1)) \<Rightarrow>
        Some (map fst (games ts1), raised (TournamentSystem_makePly ts1 1 7 1 0 2 0))
    | _ \<Rightarrow> None)
   = Some ([7], Some TypeError)"
  by code_simp

text \<open>
  C4. The claim: two \<open>joinGame\<close> calls by two new players, with no pending match
  before, return the same gameID, the match being PENDING after the first call and
  ONGOING after the second.
  On the code: the first call on the empty registry creates game 7, PENDING, with
  player 1 alone; the second call, by player 2, raises TypeError.
\<close>

theorem second_joinGame_raises:
  "(case joinGame TournamentSystem_init 1 WHITE [7] of
      Some (Inr ((ok, payload), ts1)) \<Rightarrow>
        Some (ok, payload,
              map (\<lambda>(k, g). (k, status g, players g WHITE, players g BLACK)) (games ts1),
              map_option raised (joinGame ts1 2 BLACK [9]))
    | _ \<Rightarrow> None)
   = Some (True, [(''gameID'', 7)], [(7, STATUS_PENDING, Some 1, None)], Some (Some TypeError))"
  by code_simp

end
